theory Spec2Isabelle
  imports Complex_Main "HOL-Library.Sublist"
begin

section \<open>Geometry simplification of \<^verbatim>\<open>analisis_inundaciones_colombia.py\<close> (stage 1)\<close>

text \<open>
  The functions embedded here are \<^verbatim>\<open>_punto_distancia_a_linea\<close>,
  \<^verbatim>\<open>_douglas_peucker\<close>, \<^verbatim>\<open>_simplificar_anillo\<close>,
  \<^verbatim>\<open>_redondear_coordenadas\<close> and \<^verbatim>\<open>_simplificar_geometria\<close>.

  Modelling decisions:
  \<^item> The coordinates come from \<^verbatim>\<open>json.load\<close>: a coordinate structure is a nest of
    Python lists whose leaves are numbers. It is the datatype \<open>coords\<close>; a point is not
    given a type of its own, because the source reads a point with \<^verbatim>\<open>p[0]\<close> and
    \<^verbatim>\<open>p[1]\<close> and never looks at its length, so that a point with an altitude
    is handled (and kept) by the simplifier.
  \<^item> A Python number (int or float) is a \<open>real\<close>: arithmetic is exact. Rounding error,
    overflow, underflow, infinities and NaN of IEEE doubles are outside this model.
  \<^item> Every exception the source can raise on such a structure is a value of \<open>error\<close>,
    and a function that can raise returns \<open>error + 'a\<close> with \<open>Inl\<close> the exception.
  \<^item> \<^verbatim>\<open>_douglas_peucker\<close> is recursive with no bound that holds for every
    argument, so a call that never returns is the value \<open>None\<close>
    (Python ends such a call with RecursionError once its stack limit is reached; the
    same limit also ends a returning call whose recursion is deeper than the stack,
    which the model does not bound).
\<close>

subsection \<open>Values and exceptions\<close>

datatype coords = Num real | Arr "coords list"

datatype error = TypeError | IndexError | KeyError | ZeroDivisionError

text \<open>Sequencing of calls that may raise: the first exception ends the computation.\<close>

definition bind_r :: "error + 'a \<Rightarrow> ('a \<Rightarrow> error + 'b) \<Rightarrow> error + 'b" where
  "bind_r m f = (case m of Inl e \<Rightarrow> Inl e | Inr v \<Rightarrow> f v)"

text \<open>\<^verbatim>\<open>c[i]\<close> for a literal index \<open>i \<ge> 0\<close>: a number is not subscriptable, a list
  raises IndexError out of range.\<close>

fun item :: "coords \<Rightarrow> nat \<Rightarrow> error + coords" where
  "item (Num x) i = Inl TypeError"
| "item (Arr cs) i = (if i < length cs then Inr (cs ! i) else Inl IndexError)"

text \<open>The operand of an arithmetic operator must be a number
  (\<^verbatim>\<open>list - float\<close>, \<^verbatim>\<open>list - list\<close> raise TypeError).\<close>

fun num :: "coords \<Rightarrow> error + real" where
  "num (Num x) = Inr x"
| "num (Arr cs) = Inl TypeError"

text \<open>\<^verbatim>\<open>a - b\<close>, operands evaluated left to right.\<close>

definition sub :: "coords \<Rightarrow> coords \<Rightarrow> error + real" where
  "sub a b = bind_r (num a) (\<lambda>x. bind_r (num b) (\<lambda>y. Inr (x - y)))"

text \<open>\<^verbatim>\<open>a / b\<close> on numbers: a zero divisor raises.\<close>

definition py_div :: "real \<Rightarrow> real \<Rightarrow> error + real" where
  "py_div a b = (if b = 0 then Inl ZeroDivisionError else Inr (a / b))"

subsection \<open>Distance evaluator: \<^verbatim>\<open>_punto_distancia_a_linea\<close>\<close>

text \<open>
  \<^verbatim>\<open>
  if inicio[0] == fin[0] and inicio[1] == fin[1]:
      return math.sqrt((punto[0] - inicio[0])**2 + (punto[1] - inicio[1])**2)
  dx = fin[0] - inicio[0]
  dy = fin[1] - inicio[1]
  t = max(0, min(1, ((punto[0] - inicio[0]) * dx + (punto[1] - inicio[1]) * dy)
                    / (dx * dx + dy * dy)))
  proj_x = inicio[0] + t * dx
  proj_y = inicio[1] + t * dy
  return math.sqrt((punto[0] - proj_x)**2 + (punto[1] - proj_y)**2)
  \<close>
  The subscripts and subtractions are evaluated in the order of the source. Python's
  \<^verbatim>\<open>==\<close> is defined on all values (lists are compared element by element),
  so the test itself raises only through a subscript. \<^verbatim>\<open>and\<close> evaluates its
  second operand only when the first is true.
\<close>

definition coinciden :: "coords \<Rightarrow> coords \<Rightarrow> error + bool" where
  "coinciden inicio fin =
     bind_r (item inicio 0) (\<lambda>i0. bind_r (item fin 0) (\<lambda>f0.
       if i0 = f0
       then bind_r (item inicio 1) (\<lambda>i1. bind_r (item fin 1) (\<lambda>f1. Inr (i1 = f1)))
       else Inr False))"

definition distancia_a_punto :: "coords \<Rightarrow> coords \<Rightarrow> error + real" where
  "distancia_a_punto punto inicio =
     bind_r (item punto 0) (\<lambda>p0. bind_r (item inicio 0) (\<lambda>i0. bind_r (sub p0 i0) (\<lambda>a.
     bind_r (item punto 1) (\<lambda>p1. bind_r (item inicio 1) (\<lambda>i1. bind_r (sub p1 i1) (\<lambda>b.
       Inr (sqrt (a\<^sup>2 + b\<^sup>2))))))))"

definition distancia_a_segmento :: "coords \<Rightarrow> coords \<Rightarrow> coords \<Rightarrow> error + real" where
  "distancia_a_segmento punto inicio fin =
     bind_r (item fin 0) (\<lambda>f0. bind_r (item inicio 0) (\<lambda>i0. bind_r (sub f0 i0) (\<lambda>dx.
     bind_r (item fin 1) (\<lambda>f1. bind_r (item inicio 1) (\<lambda>i1. bind_r (sub f1 i1) (\<lambda>dy.
     bind_r (item punto 0) (\<lambda>p0. bind_r (sub p0 i0) (\<lambda>a.
     bind_r (item punto 1) (\<lambda>p1. bind_r (sub p1 i1) (\<lambda>b.
     bind_r (py_div (a * dx + b * dy) (dx * dx + dy * dy)) (\<lambda>q.
     let t = max 0 (min 1 q) in
     bind_r (num i0) (\<lambda>x0. let proj_x = x0 + t * dx in
     bind_r (num i1) (\<lambda>y0. let proj_y = y0 + t * dy in
     bind_r (num p0) (\<lambda>px. bind_r (num p1) (\<lambda>py.
       Inr (sqrt ((px - proj_x)\<^sup>2 + (py - proj_y)\<^sup>2)))))))))))))))))"

definition punto_distancia_a_linea :: "coords \<Rightarrow> coords \<Rightarrow> coords \<Rightarrow> error + real" where
  "punto_distancia_a_linea punto inicio fin =
     bind_r (coinciden inicio fin) (\<lambda>c.
       if c then distancia_a_punto punto inicio
       else distancia_a_segmento punto inicio fin)"

subsection \<open>Line simplifier: \<^verbatim>\<open>_douglas_peucker\<close>\<close>

text \<open>
  The scan for the farthest interior point,
  \<^verbatim>\<open>
  distancia_max = 0
  indice_max = 0
  for i in range(1, len(puntos) - 1):
      d = _punto_distancia_a_linea(puntos[i], puntos[0], puntos[-1])
      if d > distancia_max:
          indice_max = i
          distancia_max = d
  \<close>
  is a recursion over the indices still to visit, with the pair
  \<open>(distancia_max, indice_max)\<close> as its state. It is only run on lists of more than
  two points, where \<open>puntos ! i\<close>, \<open>puntos ! 0\<close> and \<open>last puntos\<close> are in range.
\<close>

fun buscar_lejano :: "coords list \<Rightarrow> nat list \<Rightarrow> real \<times> nat \<Rightarrow> error + real \<times> nat" where
  "buscar_lejano puntos [] (distancia_max, indice_max) = Inr (distancia_max, indice_max)"
| "buscar_lejano puntos (i # is) (distancia_max, indice_max) =
     bind_r (punto_distancia_a_linea (puntos ! i) (puntos ! 0) (last puntos)) (\<lambda>d.
       if d > distancia_max then buscar_lejano puntos is (d, i)
       else buscar_lejano puntos is (distancia_max, indice_max))"

text \<open>
  \<^verbatim>\<open>
  if len(puntos) <= 2:
      return puntos
  ...
  if distancia_max > epsilon:
      izquierda = _douglas_peucker(puntos[:indice_max + 1], epsilon)
      derecha = _douglas_peucker(puntos[indice_max:], epsilon)
      return izquierda[:-1] + derecha
  else:
      return [puntos[0], puntos[-1]]
  \<close>
  The result is \<open>None\<close> when the call does not return, \<open>Some (Inl e)\<close> when it raises
  \<open>e\<close>, and \<open>Some (Inr ps)\<close> when it returns the list \<open>ps\<close>.
\<close>

partial_function (option) douglas_peucker ::
  "coords list \<Rightarrow> real \<Rightarrow> (error + coords list) option" where
  "douglas_peucker puntos epsilon =
     (if length puntos \<le> 2 then Some (Inr puntos)
      else case buscar_lejano puntos [1 ..< length puntos - 1] (0, 0) of
        Inl e \<Rightarrow> Some (Inl e)
      | Inr (distancia_max, indice_max) \<Rightarrow>
          if distancia_max > epsilon then
            Option.bind (douglas_peucker (take (indice_max + 1) puntos) epsilon) (\<lambda>izq.
              case izq of
                Inl e \<Rightarrow> Some (Inl e)
              | Inr izquierda \<Rightarrow>
                  Option.bind (douglas_peucker (drop indice_max puntos) epsilon) (\<lambda>der.
                    case der of
                      Inl e \<Rightarrow> Some (Inl e)
                    | Inr derecha \<Rightarrow> Some (Inr (butlast izquierda @ derecha))))
          else Some (Inr [puntos ! 0, last puntos]))"

subsection \<open>Ring normalizer: \<^verbatim>\<open>_simplificar_anillo\<close>\<close>

text \<open>
  \<^verbatim>\<open>
  simplificado = _douglas_peucker(anillo, epsilon)
  if len(simplificado) < 4:
      return anillo if len(anillo) >= 4 else anillo
  return simplificado
  \<close>
\<close>

definition simplificar_anillo :: "coords list \<Rightarrow> real \<Rightarrow> (error + coords list) option" where
  "simplificar_anillo anillo epsilon =
     Option.bind (douglas_peucker anillo epsilon) (\<lambda>res.
       case res of
         Inl e \<Rightarrow> Some (Inl e)
       | Inr simplificado \<Rightarrow>
           if length simplificado < 4
           then Some (Inr (if length anillo \<ge> 4 then anillo else anillo))
           else Some (Inr simplificado))"

subsection \<open>Coordinate quantizer: \<^verbatim>\<open>_redondear_coordenadas\<close>\<close>

text \<open>
  Python's \<^verbatim>\<open>round(x, ndigits)\<close> rounds to the nearest multiple of
  \<open>10 ^ (- ndigits)\<close> and resolves a tie to the even multiple; on an int and
  \<open>ndigits \<ge> 0\<close> it returns the int. On exact numbers this is:
\<close>

definition round_half_even :: "real \<Rightarrow> int" where
  "round_half_even x =
     (let f = \<lfloor>x\<rfloor>; r = x - of_int f
      in if r < 1 / 2 then f else if r > 1 / 2 then f + 1
         else if even f then f else f + 1)"

definition py_round :: "real \<Rightarrow> int \<Rightarrow> real" where
  "py_round x ndigits =
     (if 0 \<le> ndigits
      then of_int (round_half_even (x * 10 ^ nat ndigits)) / 10 ^ nat ndigits
      else of_int (round_half_even (x / 10 ^ nat (- ndigits))) * 10 ^ nat (- ndigits))"

text \<open>A list comprehension whose element expression may raise: the elements are
  evaluated in order and the first exception ends the comprehension.\<close>

fun todos :: "(error + 'a) list \<Rightarrow> error + 'a list" where
  "todos [] = Inr []"
| "todos (m # ms) = bind_r m (\<lambda>v. bind_r (todos ms) (\<lambda>vs. Inr (v # vs)))"

text \<open>
  \<^verbatim>\<open>
  if isinstance(coords[0], (int, float)):
      return [round(coords[0], precision), round(coords[1], precision)]
  return [_redondear_coordenadas(c, precision) for c in coords]
  \<close>
  \<^verbatim>\<open>coords[0]\<close> raises TypeError on a number and IndexError on an empty list;
  in the leaf case \<^verbatim>\<open>coords[1]\<close> raises IndexError on a list of one element,
  and \<^verbatim>\<open>round\<close> raises TypeError on a list.
\<close>

fun redondear_coordenadas :: "coords \<Rightarrow> int \<Rightarrow> error + coords" where
  "redondear_coordenadas (Num x) precision = Inl TypeError"
| "redondear_coordenadas (Arr []) precision = Inl IndexError"
| "redondear_coordenadas (Arr (Num x # resto)) precision =
     (case resto of
        [] \<Rightarrow> Inl IndexError
      | Num y # _ \<Rightarrow> Inr (Arr [Num (py_round x precision), Num (py_round y precision)])
      | Arr _ # _ \<Rightarrow> Inl TypeError)"
| "redondear_coordenadas (Arr (Arr c # resto)) precision =
     bind_r (todos (map (\<lambda>c. redondear_coordenadas c precision) (Arr c # resto)))
       (\<lambda>rs. Inr (Arr rs))"

subsection \<open>Geometry transformer: \<^verbatim>\<open>_simplificar_geometria\<close>\<close>

text \<open>
  A geometry is a Python dict. The function reads the keys \<^verbatim>\<open>'type'\<close> and
  \<^verbatim>\<open>'coordinates'\<close> (KeyError when one is absent), assigns
  \<^verbatim>\<open>'coordinates'\<close> and returns the dict; every other key is left as it is
  (the record's extension).
\<close>

record geometry =
  geom_type :: "string option"
  geom_coordinates :: "coords option"

text \<open>
  \<^verbatim>\<open>[_simplificar_anillo(anillo, epsilon) for anillo in coords]\<close>: a number is not
  iterable, and \<^verbatim>\<open>len(puntos)\<close> in \<^verbatim>\<open>_douglas_peucker\<close> raises TypeError on
  an element that is a number.
\<close>

fun simplificar_cada_anillo :: "coords list \<Rightarrow> real \<Rightarrow> (error + coords list) option" where
  "simplificar_cada_anillo [] epsilon = Some (Inr [])"
| "simplificar_cada_anillo (Num x # resto) epsilon = Some (Inl TypeError)"
| "simplificar_cada_anillo (Arr anillo # resto) epsilon =
     Option.bind (simplificar_anillo anillo epsilon) (\<lambda>res.
       case res of
         Inl e \<Rightarrow> Some (Inl e)
       | Inr nuevo \<Rightarrow>
           Option.bind (simplificar_cada_anillo resto epsilon) (\<lambda>res'.
             case res' of
               Inl e \<Rightarrow> Some (Inl e)
             | Inr nuevos \<Rightarrow> Some (Inr (Arr nuevo # nuevos))))"

definition simplificar_poligono :: "coords \<Rightarrow> real \<Rightarrow> (error + coords) option" where
  "simplificar_poligono coords epsilon =
     (case coords of
        Num x \<Rightarrow> Some (Inl TypeError)
      | Arr anillos \<Rightarrow>
          Option.bind (simplificar_cada_anillo anillos epsilon) (\<lambda>res.
            case res of Inl e \<Rightarrow> Some (Inl e) | Inr nuevos \<Rightarrow> Some (Inr (Arr nuevos))))"

text \<open>The loop \<^verbatim>\<open>for poligono in coords: nuevos.append([...])\<close> of the MultiPolygon branch.\<close>

fun simplificar_cada_poligono :: "coords list \<Rightarrow> real \<Rightarrow> (error + coords list) option" where
  "simplificar_cada_poligono [] epsilon = Some (Inr [])"
| "simplificar_cada_poligono (poligono # resto) epsilon =
     Option.bind (simplificar_poligono poligono epsilon) (\<lambda>res.
       case res of
         Inl e \<Rightarrow> Some (Inl e)
       | Inr nuevo \<Rightarrow>
           Option.bind (simplificar_cada_poligono resto epsilon) (\<lambda>res'.
             case res' of
               Inl e \<Rightarrow> Some (Inl e)
             | Inr nuevos \<Rightarrow> Some (Inr (nuevo # nuevos))))"

text \<open>
  \<^verbatim>\<open>
  tipo = geom['type']
  coords = geom['coordinates']
  if tipo == 'Polygon':
      geom['coordinates'] = [_simplificar_anillo(anillo, epsilon) for anillo in coords]
  elif tipo == 'MultiPolygon':
      nuevos = []
      for poligono in coords:
          nuevos.append([_simplificar_anillo(anillo, epsilon) for anillo in poligono])
      geom['coordinates'] = nuevos
  return geom
  \<close>
\<close>

definition simplificar_geometria ::
  "'a geometry_scheme \<Rightarrow> real \<Rightarrow> (error + 'a geometry_scheme) option" where
  "simplificar_geometria geom epsilon =
     (case geom_type geom of
        None \<Rightarrow> Some (Inl KeyError)
      | Some tipo \<Rightarrow>
          (case geom_coordinates geom of
             None \<Rightarrow> Some (Inl KeyError)
           | Some coords \<Rightarrow>
               if tipo = ''Polygon'' then
                 Option.bind (simplificar_poligono coords epsilon) (\<lambda>res.
                   case res of
                     Inl e \<Rightarrow> Some (Inl e)
                   | Inr nuevos \<Rightarrow> Some (Inr (geom\<lparr>geom_coordinates := Some nuevos\<rparr>)))
               else if tipo = ''MultiPolygon'' then
                 (case coords of
                    Num x \<Rightarrow> Some (Inl TypeError)
                  | Arr poligonos \<Rightarrow>
                      Option.bind (simplificar_cada_poligono poligonos epsilon) (\<lambda>res.
                        case res of
                          Inl e \<Rightarrow> Some (Inl e)
                        | Inr nuevos \<Rightarrow>
                            Some (Inr (geom\<lparr>geom_coordinates := Some (Arr nuevos)\<rparr>))))
               else Some (Inr geom)))"

subsection \<open>Well-formed points\<close>

text \<open>A position as the distance evaluator needs it: a list whose first two elements
  are numbers (anything may follow).\<close>

fun es_punto :: "coords \<Rightarrow> bool" where
  "es_punto (Arr (Num x # Num y # resto)) = True"
| "es_punto _ = False"

section \<open>Properties\<close>

subsection \<open>The distance evaluator and the scan\<close>

lemma es_puntoE: "es_punto p \<Longrightarrow> \<exists>x y r. p = Arr (Num x # Num y # r)"
  by (induction p rule: es_punto.induct) auto

lemma bind_r_Inr_iff: "bind_r m f = Inr v \<longleftrightarrow> (\<exists>u. m = Inr u \<and> f u = Inr v)"
  by (cases m) (auto simp: bind_r_def)

lemma distancia_a_punto_nonneg: "distancia_a_punto p a = Inr d \<Longrightarrow> 0 \<le> d"
  by (auto simp: distancia_a_punto_def bind_r_Inr_iff)

lemma distancia_a_segmento_nonneg: "distancia_a_segmento p a b = Inr d \<Longrightarrow> 0 \<le> d"
  by (auto simp: distancia_a_segmento_def bind_r_Inr_iff Let_def)

lemma punto_distancia_nonneg: "punto_distancia_a_linea p a b = Inr d \<Longrightarrow> 0 \<le> d"
  by (auto simp: punto_distancia_a_linea_def bind_r_Inr_iff distancia_a_punto_nonneg distancia_a_segmento_nonneg split: if_splits)

lemma punto_distancia_puntos:
  "punto_distancia_a_linea (Arr (Num px # Num py # pr)) (Arr (Num ax # Num ay # ar)) (Arr (Num bx # Num by # br))
   = Inr (if ax = bx \<and> ay = by then sqrt ((px - ax)\<^sup>2 + (py - ay)\<^sup>2)
       else (let dx = bx - ax; dy = by - ay; t = max 0 (min 1 (((px - ax) * dx + (py - ay) * dy) / (dx * dx + dy * dy)))
        in sqrt ((px - (ax + t * dx))\<^sup>2 + (py - (ay + t * dy))\<^sup>2)))"
  by (auto simp: punto_distancia_a_linea_def coinciden_def distancia_a_punto_def distancia_a_segmento_def
     bind_r_def sub_def py_div_def Let_def add_nonneg_eq_0_iff)

lemma punto_distancia_total:
  "es_punto p \<Longrightarrow> es_punto a \<Longrightarrow> es_punto b \<Longrightarrow> \<exists>d. punto_distancia_a_linea p a b = Inr d"
  using punto_distancia_puntos by (metis es_puntoE)

lemma buscar_lejano_inv:
  "buscar_lejano puntos is (dm, im) = Inr (dm', im') \<Longrightarrow>
     (dm' = dm \<and> im' = im) \<or> (dm < dm' \<and> im' \<in> set is)"
proof (induction "is" arbitrary: dm im)
  case Nil
  then show ?case by simp
next
  case (Cons i "is")
  from Cons.prems obtain d where
    d: "punto_distancia_a_linea (puntos ! i) (puntos ! 0) (last puntos) = Inr d"
    and rest: "(if d > dm then buscar_lejano puntos is (d, i) else buscar_lejano puntos is (dm, im)) = Inr (dm', im')"
    by (auto simp: bind_r_Inr_iff)
  show ?case
  proof (cases "d > dm")
    case True
    with rest Cons.IH[of d i] show ?thesis by auto
  next
    case False
    with rest Cons.IH[of dm im] show ?thesis by auto
  qed
qed

lemma buscar_lejano_rango:
  assumes "buscar_lejano puntos [1 ..< length puntos - 1] (0, 0) = Inr (dm, im)"
  shows "(dm = 0 \<and> im = 0) \<or> (0 < dm \<and> 1 \<le> im \<and> im < length puntos - 1)"
  using buscar_lejano_inv[OF assms] by auto

lemma buscar_lejano_total:
  "\<forall>i \<in> set is. es_punto (puntos ! i) \<Longrightarrow> es_punto (puntos ! 0) \<Longrightarrow> es_punto (last puntos) \<Longrightarrow>
     \<exists>r. buscar_lejano puntos is st = Inr r"
proof (induction "is" arbitrary: st)
  case Nil
  then show ?case by (cases st) simp
next
  case (Cons i "is")
  obtain dm im where st: "st = (dm, im)" by (cases st)
  from Cons.prems obtain d where
    d: "punto_distancia_a_linea (puntos ! i) (puntos ! 0) (last puntos) = Inr d"
    using punto_distancia_total by (metis list.set_intros(1))
  from Cons.prems have "\<forall>i \<in> set is. es_punto (puntos ! i)" by simp
  from Cons.IH[OF this Cons.prems(2,3)] show ?case
    by (simp add: st d bind_r_def)
qed

subsection \<open>Unfolding the simplifier\<close>

lemma douglas_peucker_corto:
  "length puntos \<le> 2 \<Longrightarrow> douglas_peucker puntos epsilon = Some (Inr puntos)"
  by (subst douglas_peucker.simps) simp

lemma douglas_peucker_error:
  "2 < length puntos \<Longrightarrow> buscar_lejano puntos [1 ..< length puntos - 1] (0, 0) = Inl e \<Longrightarrow>
     douglas_peucker puntos epsilon = Some (Inl e)"
  by (subst douglas_peucker.simps) simp

lemma douglas_peucker_descarta:
  "2 < length puntos \<Longrightarrow> buscar_lejano puntos [1 ..< length puntos - 1] (0, 0) = Inr (dm, im) \<Longrightarrow>
     \<not> dm > epsilon \<Longrightarrow> douglas_peucker puntos epsilon = Some (Inr [puntos ! 0, last puntos])"
  by (subst douglas_peucker.simps) simp

lemma douglas_peucker_divide:
  "2 < length puntos \<Longrightarrow> buscar_lejano puntos [1 ..< length puntos - 1] (0, 0) = Inr (dm, im) \<Longrightarrow>
     dm > epsilon \<Longrightarrow>
     douglas_peucker (take (im + 1) puntos) epsilon = Some (Inr izquierda) \<Longrightarrow>
     douglas_peucker (drop im puntos) epsilon = Some (Inr derecha) \<Longrightarrow>
     douglas_peucker puntos epsilon = Some (Inr (butlast izquierda @ derecha))"
  by (subst douglas_peucker.simps) simp

text \<open>Inversion: how a returned list was obtained.\<close>

lemma douglas_peucker_casos:
  assumes "douglas_peucker puntos epsilon = Some (Inr r)"
  obtains (corto) "length puntos \<le> 2" "r = puntos"
  | (descarta) dm im where "2 < length puntos"
      "buscar_lejano puntos [1 ..< length puntos - 1] (0, 0) = Inr (dm, im)"
      "\<not> dm > epsilon" "r = [puntos ! 0, last puntos]"
  | (divide) dm im izquierda derecha where "2 < length puntos"
      "buscar_lejano puntos [1 ..< length puntos - 1] (0, 0) = Inr (dm, im)"
      "dm > epsilon"
      "douglas_peucker (take (im + 1) puntos) epsilon = Some (Inr izquierda)"
      "douglas_peucker (drop im puntos) epsilon = Some (Inr derecha)"
      "r = butlast izquierda @ derecha"
  using assms
  by (subst (asm) douglas_peucker.simps)
     (auto split: if_splits sum.splits prod.splits Option.bind_splits)

lemma subseq_butlast: "subseq xs ys \<Longrightarrow> subseq (butlast xs) (butlast ys)"
proof (induction rule: list_emb.induct)
  case (list_emb_Nil ys)
  then show ?case by simp
next
  case (list_emb_Cons xs ys y)
  then show ?case by (cases ys) (auto)
next
  case (list_emb_Cons2 x y xs ys)
  then show ?case by (cases xs; cases ys) auto
qed

lemma douglas_peucker_extremos_aux:
  assumes dp: "douglas_peucker puntos epsilon = Some res"
  shows "(\<forall>r. res = Inr r \<longrightarrow>
        (length puntos \<le> 2 \<longrightarrow> r = puntos) \<and>
        (2 \<le> length puntos \<longrightarrow> 2 \<le> length r \<and> hd r = hd puntos \<and> last r = last puntos))"
proof (induct rule: douglas_peucker.raw_induct[OF _ dp])
  case (1 dp puntos epsilon res)
  show ?case
  proof (intro allI impI)
    fix r assume res: "res = Inr r"
    show "(length puntos \<le> 2 \<longrightarrow> r = puntos) \<and>
        (2 \<le> length puntos \<longrightarrow> 2 \<le> length r \<and> hd r = hd puntos \<and> last r = last puntos)"
    proof (cases "length puntos \<le> 2")
      case True
      with 1(2) res show ?thesis by simp
    next
      case largo: False
      with 1(2) res obtain dm im where
        sc: "buscar_lejano puntos [1 ..< length puntos - 1] (0, 0) = Inr (dm, im)"
        by (auto split: sum.splits)
      from buscar_lejano_rango[OF sc] largo have im: "im < length puntos - 1" by auto
      show ?thesis
      proof (cases "dm > epsilon")
        case False
        with 1(2) res largo sc have "r = [puntos ! 0, last puntos]" by simp
        with largo show ?thesis by (cases puntos) auto
      next
        case True
        with 1(2) res largo sc obtain izq der where
          l: "dp (take (im + 1) puntos) epsilon = Some (Inr izq)" and
          d: "dp (drop im puntos) epsilon = Some (Inr der)" and
          r: "r = butlast izq @ der"
          by (auto split: Option.bind_splits sum.splits)
        from 1(1)[OF l] have izq:
          "length (take (im + 1) puntos) \<le> 2 \<longrightarrow> izq = take (im + 1) puntos"
          "2 \<le> length (take (im + 1) puntos) \<longrightarrow> 2 \<le> length izq \<and> hd izq = hd (take (im + 1) puntos)"
          by auto
        from im have "2 \<le> length (drop im puntos)" by simp
        with 1(1)[OF d] have der:
          "2 \<le> length der" "hd der = hd (drop im puntos)" "last der = last (drop im puntos)"
          by auto
        from der(1) have dne: "der \<noteq> []" by auto
        have len: "2 \<le> length r" using r der(1) by simp
        have lst: "last r = last puntos" using r dne der(3) im by simp
        have hdr: "hd r = hd puntos"
        proof (cases "im = 0")
          case True
          with largo have "length (take (im + 1) puntos) \<le> 2" by simp
          with izq(1) True have "izq = take 1 puntos" by simp
          with largo have "butlast izq = []" by (cases puntos) auto
          with r der(2) True show ?thesis by simp
        next
          case False
          with im have "2 \<le> length (take (im + 1) puntos)" by simp
          with izq(2) have i2: "2 \<le> length izq" "hd izq = hd (take (im + 1) puntos)" by auto
          then have "butlast izq \<noteq> []" by (cases izq rule: rev_cases) auto
          then have "hd r = hd izq" using r by (cases izq) (auto split: if_splits)
          with i2(2) show ?thesis by simp
        qed
        from len lst hdr largo show ?thesis by simp
      qed
    qed
  qed
qed

lemma douglas_peucker_subseq_aux:
  assumes dp: "douglas_peucker puntos epsilon = Some res"
  shows "\<forall>r. res = Inr r \<longrightarrow> subseq r puntos"
proof (induct rule: douglas_peucker.raw_induct[OF _ dp])
  case (1 dp puntos epsilon res)
  show ?case
  proof (intro allI impI)
    fix r assume res: "res = Inr r"
    show "subseq r puntos"
    proof (cases "length puntos \<le> 2")
      case True
      with 1(2) res show ?thesis by simp
    next
      case largo: False
      with 1(2) res obtain dm im where
        sc: "buscar_lejano puntos [1 ..< length puntos - 1] (0, 0) = Inr (dm, im)"
        by (auto split: sum.splits)
      from buscar_lejano_rango[OF sc] largo have im: "im < length puntos - 1" by auto
      show ?thesis
      proof (cases "dm > epsilon")
        case False
        with 1(2) res largo sc have r: "r = [puntos ! 0, last puntos]" by simp
        from largo obtain p ps where ps: "puntos = p # ps" by (cases puntos) auto
        with largo have ne: "ps \<noteq> []" by auto
        then have "subseq [last ps] ps"
          by (metis append_butlast_last_id list_emb_append2 subseq_order.order_refl)
        with r ps ne show ?thesis by simp
      next
        case True
        with 1(2) res largo sc obtain izq der where
          l: "dp (take (im + 1) puntos) epsilon = Some (Inr izq)" and
          d: "dp (drop im puntos) epsilon = Some (Inr der)" and
          r: "r = butlast izq @ der"
          by (auto split: Option.bind_splits sum.splits)
        from 1(1)[OF l] have "subseq izq (take (im + 1) puntos)" by simp
        then have "subseq (butlast izq) (butlast (take (im + 1) puntos))"
          by (rule subseq_butlast)
        moreover have "butlast (take (im + 1) puntos) = take im puntos"
          using im by (simp add: butlast_take)
        ultimately have a: "subseq (butlast izq) (take im puntos)" by simp
        from 1(1)[OF d] have b: "subseq der (drop im puntos)" by simp
        from list_emb_append_mono[OF a b] r show ?thesis by simp
      qed
    qed
  qed
qed

subsection \<open>Returning, and what a returned list looks like\<close>

lemma douglas_peucker_retorna:
  "0 \<le> epsilon \<Longrightarrow> \<forall>p \<in> set puntos. es_punto p \<Longrightarrow>
     \<exists>r. douglas_peucker puntos epsilon = Some (Inr r)"
proof (induction puntos rule: length_induct)
  case (1 puntos)
  show ?case
  proof (cases "length puntos \<le> 2")
    case True
    then show ?thesis by (simp add: douglas_peucker_corto)
  next
    case largo: False
    then have ne: "puntos \<noteq> []" by auto
    have "\<forall>i \<in> set [1 ..< length puntos - 1]. es_punto (puntos ! i)"
      using "1.prems"(2) by (auto simp: all_set_conv_all_nth)
    moreover have "es_punto (puntos ! 0)" "es_punto (last puntos)"
      using "1.prems"(2) ne by (simp_all add: hd_conv_nth[symmetric])
    ultimately obtain dm im where
      sc: "buscar_lejano puntos [1 ..< length puntos - 1] (0, 0) = Inr (dm, im)"
      using buscar_lejano_total by (metis surj_pair)
    show ?thesis
    proof (cases "dm > epsilon")
      case False
      with largo sc show ?thesis by (simp add: douglas_peucker_descarta)
    next
      case True
      with "1.prems"(1) buscar_lejano_rango[OF sc]
      have im: "1 \<le> im" "im < length puntos - 1" by auto
      have "length (take (im + 1) puntos) < length puntos" using im by simp
      moreover have "\<forall>p \<in> set (take (im + 1) puntos). es_punto p"
        using "1.prems"(2) by (meson in_set_takeD)
      ultimately obtain izq where
        l: "douglas_peucker (take (im + 1) puntos) epsilon = Some (Inr izq)"
        using "1.IH" "1.prems"(1) by blast
      have "length (drop im puntos) < length puntos" using im by simp
      moreover have "\<forall>p \<in> set (drop im puntos). es_punto p"
        using "1.prems"(2) by (meson in_set_dropD)
      ultimately obtain der where
        d: "douglas_peucker (drop im puntos) epsilon = Some (Inr der)"
        using "1.IH" "1.prems"(1) by blast
      from largo sc True l d show ?thesis
        by (simp add: douglas_peucker_divide)
    qed
  qed
qed

lemma douglas_peucker_monotono_aux:
  assumes dp: "douglas_peucker puntos epsilon = Some res"
  shows "\<forall>r1. res = Inr r1 \<longrightarrow>
           (2 \<le> length puntos \<longrightarrow> 2 \<le> length r1) \<and>
           (\<forall>t2 r2. epsilon < t2 \<longrightarrow> douglas_peucker puntos t2 = Some (Inr r2)
                \<longrightarrow> length r2 \<le> length r1)"
proof (induct rule: douglas_peucker.raw_induct[OF _ dp])
  case (1 dp puntos epsilon res)
  show ?case
  proof (intro allI impI conjI)
    fix r1 assume res: "res = Inr r1" and "2 \<le> length puntos"
    show "2 \<le> length r1"
    proof (cases "length puntos \<le> 2")
      case True
      with 1(2) res \<open>2 \<le> length puntos\<close> show ?thesis by simp
    next
      case largo: False
      with 1(2) res obtain dm im where
        sc: "buscar_lejano puntos [1 ..< length puntos - 1] (0, 0) = Inr (dm, im)"
        by (auto split: sum.splits)
      from buscar_lejano_rango[OF sc] largo have im: "im < length puntos - 1" by auto
      show ?thesis
      proof (cases "dm > epsilon")
        case False
        with 1(2) res largo sc show ?thesis by auto
      next
        case True
        with 1(2) res largo sc obtain izq der where
          d: "dp (drop im puntos) epsilon = Some (Inr der)" and
          r: "r1 = butlast izq @ der"
          by (auto split: Option.bind_splits sum.splits)
        from im have "2 \<le> length (drop im puntos)" by simp
        with 1(1)[OF d] r show ?thesis by simp
      qed
    qed
  next
    fix r1 t2 r2
    assume res: "res = Inr r1" and lt: "epsilon < t2"
      and dp2: "douglas_peucker puntos t2 = Some (Inr r2)"
    show "length r2 \<le> length r1"
    proof (cases "length puntos \<le> 2")
      case True
      with 1(2) res dp2 show ?thesis by (simp add: douglas_peucker_corto)
    next
      case largo: False
      with 1(2) res obtain dm im where
        sc: "buscar_lejano puntos [1 ..< length puntos - 1] (0, 0) = Inr (dm, im)"
        by (auto split: sum.splits)
      from buscar_lejano_rango[OF sc] largo have im: "im < length puntos - 1" by auto
      show ?thesis
      proof (cases "dm > epsilon")
        case False
        with 1(2) res largo sc have "r1 = [puntos ! 0, last puntos]" by simp
        moreover from False lt have "\<not> dm > t2" by simp
        with largo sc dp2 have "r2 = [puntos ! 0, last puntos]"
          by (simp add: douglas_peucker_descarta)
        ultimately show ?thesis by simp
      next
        case True
        with 1(2) res largo sc obtain izq der where
          l: "dp (take (im + 1) puntos) epsilon = Some (Inr izq)" and
          d: "dp (drop im puntos) epsilon = Some (Inr der)" and
          r: "r1 = butlast izq @ der"
          by (auto split: Option.bind_splits sum.splits)
        from im have "2 \<le> length (drop im puntos)" by simp
        with 1(1)[OF d] have der2: "2 \<le> length der" by simp
        from dp2 show ?thesis
        proof (cases rule: douglas_peucker_casos)
          case corto
          with largo show ?thesis by simp
        next
          case (descarta dm' im')
          with r der2 show ?thesis by simp
        next
          case (divide dm' im' izq2 der2)
          with sc have eq: "dm' = dm" "im' = im" by simp_all
          from 1(1)[OF l] lt divide(4) eq have "length izq2 \<le> length izq" by blast
          moreover from 1(1)[OF d] lt divide(5) eq have "length der2 \<le> length der" by blast
          ultimately show ?thesis using r divide(6) by simp
        qed
      qed
    qed
  qed
qed

lemma douglas_peucker_no_retorna_aux:
  assumes dp: "douglas_peucker puntos epsilon = Some res"
  shows "(length puntos \<le> 2 \<longrightarrow> res = Inr puntos) \<and>
         \<not> (2 < length puntos \<and> epsilon < 0 \<and>
            buscar_lejano puntos [1 ..< length puntos - 1] (0, 0) = Inr (0, 0))"
proof (induct rule: douglas_peucker.raw_induct[OF _ dp])
  case (1 dp puntos epsilon res)
  show ?case
  proof (intro conjI impI notI)
    assume "length puntos \<le> 2"
    with 1(2) show "res = Inr puntos" by simp
  next
    assume a: "2 < length puntos \<and> epsilon < 0 \<and>
            buscar_lejano puntos [1 ..< length puntos - 1] (0, 0) = Inr (0, 0)"
    with 1(2) obtain izq where l: "dp (take 1 puntos) epsilon = Some izq"
      by (auto split: Option.bind_splits)
    from 1(1)[OF l] have "izq = Inr (take 1 puntos)" by simp
    with 1(2) a l obtain y where "dp puntos epsilon = Some y"
      by (auto split: Option.bind_splits)
    from 1(1)[OF this] a show False by simp
  qed
qed

lemma douglas_peucker_no_retorna:
  assumes "2 < length puntos" and "epsilon < 0"
    and "buscar_lejano puntos [1 ..< length puntos - 1] (0, 0) = Inr (0, 0)"
  shows "douglas_peucker puntos epsilon = None"
proof (cases "douglas_peucker puntos epsilon")
  case None
  then show ?thesis .
next
  case (Some res)
  from douglas_peucker_no_retorna_aux[OF Some] assms show ?thesis by simp
qed

subsection \<open>Evaluation on concrete rings\<close>

text \<open>Comparisons with a square root are decided by squaring.\<close>

lemma sqrt_less_num: "0 \<le> y \<Longrightarrow> (sqrt x < y) = (x < y\<^sup>2)"
  by (metis real_sqrt_less_iff real_sqrt_abs abs_of_nonneg)

lemma num_less_sqrt: "0 \<le> y \<Longrightarrow> (y < sqrt x) = (y\<^sup>2 < x)"
  by (metis real_sqrt_less_iff real_sqrt_abs abs_of_nonneg)

lemma num_less_sqrt_mult: "0 \<le> y \<Longrightarrow> 0 < c \<Longrightarrow> (y < sqrt x * c) = ((y / c)\<^sup>2 < x)"
proof -
  assume y: "0 \<le> y" and c: "0 < c"
  then have "(y < sqrt x * c) = (y / c < sqrt x)" by (simp add: pos_divide_less_eq)
  also have "\<dots> = ((y / c)\<^sup>2 < x)" using y c by (simp add: num_less_sqrt)
  finally show ?thesis .
qed

lemma douglas_peucker_largo:
  "2 < length puntos \<Longrightarrow>
   douglas_peucker puntos epsilon =
     (case buscar_lejano puntos [1 ..< length puntos - 1] (0, 0) of
        Inl e \<Rightarrow> Some (Inl e)
      | Inr (distancia_max, indice_max) \<Rightarrow>
          if distancia_max > epsilon then
            Option.bind (douglas_peucker (take (indice_max + 1) puntos) epsilon) (\<lambda>izq.
              case izq of
                Inl e \<Rightarrow> Some (Inl e)
              | Inr izquierda \<Rightarrow>
                  Option.bind (douglas_peucker (drop indice_max puntos) epsilon) (\<lambda>der.
                    case der of
                      Inl e \<Rightarrow> Some (Inl e)
                    | Inr derecha \<Rightarrow> Some (Inr (butlast izquierda @ derecha))))
          else Some (Inr [puntos ! 0, last puntos]))"
  by (subst douglas_peucker.simps) simp

lemmas evalua = douglas_peucker_largo douglas_peucker_corto upt_rec punto_distancia_puntos
  bind_r_def Let_def sqrt_less_num num_less_sqrt num_less_sqrt_mult power_divide

text \<open>The scenarios of the specification, and three more inputs.\<close>

lemma ejemplo_triangulo_1:
  "douglas_peucker [Arr [Num 0, Num 0], Arr [Num 5, Num 10], Arr [Num 10, Num 0], Arr [Num 0, Num 0]] 1
     = Some (Inr [Arr [Num 0, Num 0], Arr [Num 5, Num 10], Arr [Num 10, Num 0], Arr [Num 0, Num 0]])"
  by (simp add: evalua)

lemma ejemplo_triangulo_10:
  "douglas_peucker [Arr [Num 0, Num 0], Arr [Num 5, Num 10], Arr [Num 10, Num 0], Arr [Num 0, Num 0]] 10
     = Some (Inr [Arr [Num 0, Num 0], Arr [Num 5, Num 10], Arr [Num 0, Num 0]])"
  by (simp add: evalua)

lemma ejemplo_casi_recto:
  "douglas_peucker [Arr [Num 0, Num 0], Arr [Num 0, Num 5.001], Arr [Num 0, Num 10],
                    Arr [Num 10, Num 10], Arr [Num 10, Num 0], Arr [Num 0, Num 0]] 0.01
     = Some (Inr [Arr [Num 0, Num 0], Arr [Num 0, Num 10],
                    Arr [Num 10, Num 10], Arr [Num 10, Num 0], Arr [Num 0, Num 0]])"
  by (simp add: evalua)

lemma ejemplo_cuadrado:
  "douglas_peucker [Arr [Num 0, Num 0], Arr [Num 0, Num 10],
                    Arr [Num 10, Num 10], Arr [Num 10, Num 0], Arr [Num 0, Num 0]] 1
     = Some (Inr [Arr [Num 0, Num 0], Arr [Num 0, Num 10],
                    Arr [Num 10, Num 10], Arr [Num 10, Num 0], Arr [Num 0, Num 0]])"
  by (simp add: evalua)

lemma ejemplo_colineal:
  "douglas_peucker [Arr [Num 0, Num 0], Arr [Num 1, Num 0], Arr [Num 2, Num 0]] 0
     = Some (Inr [Arr [Num 0, Num 0], Arr [Num 2, Num 0]])"
  by (simp add: evalua)

lemma ejemplo_negativo:
  "douglas_peucker [Arr [Num 0, Num 0], Arr [Num 0, Num 0], Arr [Num 0, Num 0]] (- 1) = None"
  by (rule douglas_peucker_no_retorna) (simp_all add: evalua)

subsection \<open>The ring normalizer and the exceptions of the distance evaluator\<close>

lemma simplificar_anillo_Inr:
  "douglas_peucker anillo epsilon = Some (Inr s) \<Longrightarrow>
     simplificar_anillo anillo epsilon = Some (Inr (if length s < 4 then anillo else s))"
  by (simp add: simplificar_anillo_def)

lemma simplificar_anillo_casos:
  assumes "simplificar_anillo anillo epsilon = Some (Inr r)"
  obtains s where "douglas_peucker anillo epsilon = Some (Inr s)"
    and "r = (if length s < 4 then anillo else s)"
  using assms
  by (auto simp: simplificar_anillo_def split: Option.bind_splits sum.splits if_splits)

lemma ejemplo_anillo_corto:
  "douglas_peucker [Arr [Num 0, Num 0], Arr [Num 1, Num 1], Arr [Num 0, Num 0]] 0.008
     = Some (Inr [Arr [Num 0, Num 0], Arr [Num 1, Num 1], Arr [Num 0, Num 0]])"
  by (simp add: evalua)

lemma coinciden_mismo: "coinciden a a = Inr c \<Longrightarrow> c"
  by (auto simp: coinciden_def bind_r_Inr_iff split: if_splits)

lemma bind_r_Inl_iff: "bind_r m f = Inl e \<longleftrightarrow> m = Inl e \<or> (\<exists>v. m = Inr v \<and> f v = Inl e)"
  by (cases m) (auto simp: bind_r_def)

lemma item_error: "item c i = Inl e \<Longrightarrow> e \<noteq> ZeroDivisionError"
  by (cases c) (auto split: if_splits)

lemma num_error: "num c = Inl e \<Longrightarrow> e \<noteq> ZeroDivisionError"
  by (cases c) auto

lemma sub_error: "sub a b = Inl e \<Longrightarrow> e \<noteq> ZeroDivisionError"
  by (auto simp: sub_def bind_r_Inl_iff dest: num_error)

lemma distancia_a_punto_sin_division: "distancia_a_punto p a \<noteq> Inl ZeroDivisionError"
  by (auto simp: distancia_a_punto_def bind_r_Inl_iff dest: item_error sub_error)

lemma coinciden_error: "coinciden a b = Inl e \<Longrightarrow> e \<noteq> ZeroDivisionError"
  by (auto simp: coinciden_def bind_r_Inl_iff dest: item_error split: if_splits)

subsection \<open>The coordinate quantizer\<close>

lemma round_half_even_of_int: "round_half_even (of_int k) = k"
  by (simp add: round_half_even_def)

lemma py_round_idem: "py_round (py_round x p) p = py_round x p"
  by (simp add: py_round_def round_half_even_of_int)

lemma todos_Inr_iff: "todos ms = Inr vs \<longleftrightarrow> list_all2 (\<lambda>m v. m = Inr v) ms vs"
proof (induction ms arbitrary: vs)
  case Nil
  then show ?case by auto
next
  case (Cons m ms)
  then show ?case by (cases vs) (auto simp: bind_r_Inr_iff)
qed

lemma todos_map_Inr_iff:
  "todos (map f cs) = Inr rs \<longleftrightarrow> list_all2 (\<lambda>c r. f c = Inr r) cs rs"
  by (simp add: todos_Inr_iff list_all2_map1)

lemma redondear_lista_iff:
  "redondear_coordenadas (Arr (Arr c # cs)) precision = Inr r \<longleftrightarrow>
     (\<exists>rs. r = Arr rs \<and>
        list_all2 (\<lambda>c r. redondear_coordenadas c precision = Inr r) (Arr c # cs) rs)"
  unfolding redondear_coordenadas.simps bind_r_Inr_iff todos_map_Inr_iff by auto

lemma redondear_es_lista:
  "redondear_coordenadas coords precision = Inr r \<Longrightarrow> \<exists>rs. r = Arr rs"
  by (induction coords precision rule: redondear_coordenadas.induct)
     (auto simp: bind_r_Inr_iff split: list.splits coords.splits)

lemma redondear_resultado_fijo:
  "redondear_coordenadas coords precision = Inr r \<Longrightarrow> redondear_coordenadas r precision = Inr r"
proof (induction coords precision arbitrary: r rule: redondear_coordenadas.induct)
  case (1 x precision)
  then show ?case by simp
next
  case (2 precision)
  then show ?case by simp
next
  case (3 x resto precision)
  then show ?case by (auto simp: py_round_idem split: list.splits coords.splits)
next
  case (4 c resto precision)
  from 4(2) obtain rs where r: "r = Arr rs"
    and all: "list_all2 (\<lambda>c r. redondear_coordenadas c precision = Inr r) (Arr c # resto) rs"
    unfolding redondear_lista_iff by blast
  from all obtain r0 rs' where rs: "rs = r0 # rs'"
    and r0: "redondear_coordenadas (Arr c) precision = Inr r0"
    by (auto simp: list_all2_Cons1)
  from redondear_es_lista[OF r0] obtain c0 where c0: "r0 = Arr c0" by blast
  have "list_all2 (\<lambda>c r. redondear_coordenadas c precision = Inr r) rs rs"
  proof (rule list_all2_all_nthI)
    show "length rs = length rs" by simp
  next
    fix n assume n: "n < length rs"
    from all have len: "length (Arr c # resto) = length rs" by (rule list_all2_lengthD)
    from all n len have "redondear_coordenadas ((Arr c # resto) ! n) precision = Inr (rs ! n)"
      by (simp add: list_all2_conv_all_nth)
    moreover from n len have "(Arr c # resto) ! n \<in> set (Arr c # resto)"
      by (metis nth_mem)
    ultimately show "redondear_coordenadas (rs ! n) precision = Inr (rs ! n)"
      using 4(1) by blast
  qed
  then show ?case unfolding r rs c0 redondear_lista_iff by blast
qed

lemma ejemplo_redondear:
  "redondear_coordenadas
     (Arr [Arr [Arr [Num (- 74.072092), Num 4.710989, Num 2640], Arr [Num 1.23456, Num 2.5]]]) 3
   = Inr (Arr [Arr [Arr [Num (- 74.072), Num 4.711], Arr [Num 1.235, Num 2.5]]])"
  by (simp add: bind_r_def py_round_def round_half_even_def Let_def)

section \<open>The claims\<close>

text \<open>
  In the statements below \<open>douglas_peucker puntos epsilon = Some (Inr r)\<close> reads
  ``the call returns the list \<open>r\<close>''. Each statement has two parts: what holds of
  every returned list, for every tolerance, and that the call does return a list when
  the tolerance is not negative and every element of the input is a point.
\<close>

subsection \<open>Line simplifier\<close>

text \<open>
  Claim C3. For every list of points and every tolerance, the result of
  \<^verbatim>\<open>_douglas_peucker\<close> is a subsequence of the input list, its elements in
  the same relative order as in the input.
\<close>

theorem douglas_peucker_subsecuencia:
  "(\<forall>r. douglas_peucker puntos epsilon = Some (Inr r) \<longrightarrow> subseq r puntos) \<and>
   (0 \<le> epsilon \<longrightarrow> list_all es_punto puntos \<longrightarrow>
      (\<exists>r. douglas_peucker puntos epsilon = Some (Inr r) \<and> subseq r puntos))"
proof (rule conjI; intro allI impI)
  fix r assume "douglas_peucker puntos epsilon = Some (Inr r)"
  from douglas_peucker_subseq_aux[OF this] show "subseq r puntos" by simp
next
  assume "0 \<le> epsilon" and "list_all es_punto puntos"
  then have "0 \<le> epsilon" and "\<forall>p \<in> set puntos. es_punto p"
    by (simp_all add: list_all_iff)
  then obtain r where r: "douglas_peucker puntos epsilon = Some (Inr r)"
    using douglas_peucker_retorna by blast
  from douglas_peucker_subseq_aux[OF r] r
  show "\<exists>r. douglas_peucker puntos epsilon = Some (Inr r) \<and> subseq r puntos" by simp
qed

theorem douglas_peucker_subsecuencia_witness:
  "(0::real) \<le> 0.01 \<and>
   list_all es_punto [Arr [Num 0, Num 0], Arr [Num 0, Num 5.001], Arr [Num 0, Num 10],
                Arr [Num 10, Num 10], Arr [Num 10, Num 0], Arr [Num 0, Num 0]] \<and>
   douglas_peucker [Arr [Num 0, Num 0], Arr [Num 0, Num 5.001], Arr [Num 0, Num 10],
                    Arr [Num 10, Num 10], Arr [Num 10, Num 0], Arr [Num 0, Num 0]] 0.01
     = Some (Inr [Arr [Num 0, Num 0], Arr [Num 0, Num 10],
                  Arr [Num 10, Num 10], Arr [Num 10, Num 0], Arr [Num 0, Num 0]]) \<and>
   subseq [Arr [Num 0, Num 0], Arr [Num 0, Num 10],
           Arr [Num 10, Num 10], Arr [Num 10, Num 0], Arr [Num 0, Num 0]]
          [Arr [Num 0, Num 0], Arr [Num 0, Num 5.001], Arr [Num 0, Num 10],
           Arr [Num 10, Num 10], Arr [Num 10, Num 0], Arr [Num 0, Num 0]]"
  using douglas_peucker_subsecuencia
    [of "[Arr [Num 0, Num 0], Arr [Num 0, Num 5.001], Arr [Num 0, Num 10],
          Arr [Num 10, Num 10], Arr [Num 10, Num 0], Arr [Num 0, Num 0]]" "0.01"]
    ejemplo_casi_recto
  by simp

text \<open>
  Claim C4. For every non-empty list of points and every tolerance, the first element
  of the result of \<^verbatim>\<open>_douglas_peucker\<close> is the first element of the input and
  the last element of the result is the last element of the input.
\<close>

theorem douglas_peucker_conserva_extremos:
  "puntos \<noteq> [] \<Longrightarrow>
   (\<forall>r. douglas_peucker puntos epsilon = Some (Inr r) \<longrightarrow>
      r \<noteq> [] \<and> hd r = hd puntos \<and> last r = last puntos) \<and>
   (0 \<le> epsilon \<longrightarrow> list_all es_punto puntos \<longrightarrow>
      (\<exists>r. douglas_peucker puntos epsilon = Some (Inr r) \<and>
           r \<noteq> [] \<and> hd r = hd puntos \<and> last r = last puntos))"
proof -
  assume ne: "puntos \<noteq> []"
  have parcial: "r \<noteq> [] \<and> hd r = hd puntos \<and> last r = last puntos"
    if r: "douglas_peucker puntos epsilon = Some (Inr r)" for r
  proof (cases "length puntos \<le> 2")
    case True
    with douglas_peucker_extremos_aux[OF r] ne show ?thesis by simp
  next
    case False
    with douglas_peucker_extremos_aux[OF r] have "2 \<le> length r" "hd r = hd puntos" "last r = last puntos"
      by simp_all
    then show ?thesis by auto
  qed
  show ?thesis
  proof (rule conjI; intro allI impI)
    fix r assume "douglas_peucker puntos epsilon = Some (Inr r)"
    then show "r \<noteq> [] \<and> hd r = hd puntos \<and> last r = last puntos" by (rule parcial)
  next
    assume "0 \<le> epsilon" and "list_all es_punto puntos"
    then have "0 \<le> epsilon" and "\<forall>p \<in> set puntos. es_punto p"
      by (simp_all add: list_all_iff)
    then obtain r where r: "douglas_peucker puntos epsilon = Some (Inr r)"
      using douglas_peucker_retorna by blast
    with parcial[OF r]
    show "\<exists>r. douglas_peucker puntos epsilon = Some (Inr r) \<and>
           r \<noteq> [] \<and> hd r = hd puntos \<and> last r = last puntos" by simp
  qed
qed

theorem douglas_peucker_conserva_extremos_witness:
  "[Arr [Num 0, Num 0], Arr [Num 0, Num 10], Arr [Num 10, Num 10], Arr [Num 10, Num 0],
    Arr [Num 0, Num 0]] \<noteq> [] \<and> (0::real) \<le> 1 \<and>
   list_all es_punto [Arr [Num 0, Num 0], Arr [Num 0, Num 10], Arr [Num 10, Num 10],
                Arr [Num 10, Num 0], Arr [Num 0, Num 0]] \<and>
   douglas_peucker [Arr [Num 0, Num 0], Arr [Num 0, Num 10], Arr [Num 10, Num 10],
                    Arr [Num 10, Num 0], Arr [Num 0, Num 0]] 1
     = Some (Inr [Arr [Num 0, Num 0], Arr [Num 0, Num 10], Arr [Num 10, Num 10],
                  Arr [Num 10, Num 0], Arr [Num 0, Num 0]]) \<and>
   hd [Arr [Num 0, Num 0], Arr [Num 0, Num 10], Arr [Num 10, Num 10], Arr [Num 10, Num 0],
       Arr [Num 0, Num 0]] = Arr [Num 0, Num 0] \<and>
   last [Arr [Num 0, Num 0], Arr [Num 0, Num 10], Arr [Num 10, Num 10], Arr [Num 10, Num 0],
         Arr [Num 0, Num 0]] = Arr [Num 0, Num 0]"
  using douglas_peucker_conserva_extremos
    [of "[Arr [Num 0, Num 0], Arr [Num 0, Num 10], Arr [Num 10, Num 10], Arr [Num 10, Num 0],
          Arr [Num 0, Num 0]]" 1]
    ejemplo_cuadrado
  by simp

text \<open>
  Claim C5. For every list of points and every pair of tolerances \<open>t1 < t2\<close>, the
  list returned for \<open>t1\<close> is at least as long as the list returned for \<open>t2\<close>:
  raising the tolerance never produces a longer output.
\<close>

theorem douglas_peucker_monotono:
  "t1 < t2 \<Longrightarrow>
   (\<forall>r1 r2. douglas_peucker puntos t1 = Some (Inr r1) \<longrightarrow>
            douglas_peucker puntos t2 = Some (Inr r2) \<longrightarrow> length r2 \<le> length r1) \<and>
   (0 \<le> t1 \<longrightarrow> list_all es_punto puntos \<longrightarrow>
      (\<exists>r1 r2. douglas_peucker puntos t1 = Some (Inr r1) \<and>
               douglas_peucker puntos t2 = Some (Inr r2) \<and> length r2 \<le> length r1))"
proof -
  assume lt: "t1 < t2"
  have parcial: "length r2 \<le> length r1"
    if "douglas_peucker puntos t1 = Some (Inr r1)" "douglas_peucker puntos t2 = Some (Inr r2)"
    for r1 r2
    using douglas_peucker_monotono_aux[OF that(1)] lt that(2) by blast
  show ?thesis
  proof (rule conjI; intro allI impI)
    fix r1 r2
    assume "douglas_peucker puntos t1 = Some (Inr r1)" "douglas_peucker puntos t2 = Some (Inr r2)"
    then show "length r2 \<le> length r1" by (rule parcial)
  next
    assume t1: "0 \<le> t1" and "list_all es_punto puntos"
    then have wf: "\<forall>p \<in> set puntos. es_punto p" by (simp add: list_all_iff)
    from t1 wf obtain r1 where r1: "douglas_peucker puntos t1 = Some (Inr r1)"
      using douglas_peucker_retorna by blast
    from t1 lt have "0 \<le> t2" by simp
    with wf obtain r2 where r2: "douglas_peucker puntos t2 = Some (Inr r2)"
      using douglas_peucker_retorna by blast
    from parcial[OF r1 r2] r1 r2
    show "\<exists>r1 r2. douglas_peucker puntos t1 = Some (Inr r1) \<and>
               douglas_peucker puntos t2 = Some (Inr r2) \<and> length r2 \<le> length r1" by blast
  qed
qed

theorem douglas_peucker_monotono_witness:
  "(1::real) < 10 \<and>
   douglas_peucker [Arr [Num 0, Num 0], Arr [Num 5, Num 10], Arr [Num 10, Num 0], Arr [Num 0, Num 0]] 1
     = Some (Inr [Arr [Num 0, Num 0], Arr [Num 5, Num 10], Arr [Num 10, Num 0], Arr [Num 0, Num 0]]) \<and>
   douglas_peucker [Arr [Num 0, Num 0], Arr [Num 5, Num 10], Arr [Num 10, Num 0], Arr [Num 0, Num 0]] 10
     = Some (Inr [Arr [Num 0, Num 0], Arr [Num 5, Num 10], Arr [Num 0, Num 0]]) \<and>
   length [Arr [Num 0, Num 0], Arr [Num 5, Num 10], Arr [Num 0, Num 0]]
     \<le> length [Arr [Num 0, Num 0], Arr [Num 5, Num 10], Arr [Num 10, Num 0], Arr [Num 0, Num 0]]"
  using douglas_peucker_monotono
    [of 1 10 "[Arr [Num 0, Num 0], Arr [Num 5, Num 10], Arr [Num 10, Num 0], Arr [Num 0, Num 0]]"]
    ejemplo_triangulo_1 ejemplo_triangulo_10
  by simp

text \<open>
  Claim C9, as amended. For every input list with at least 2 points and every
  tolerance that is zero or positive, \<^verbatim>\<open>_douglas_peucker\<close> returns a list with
  at least 2 points; for a negative tolerance the call need not return, and a list
  that it does return has at least 2 points.
\<close>

theorem douglas_peucker_al_menos_dos:
  "2 \<le> length puntos \<Longrightarrow>
   (\<forall>r. douglas_peucker puntos epsilon = Some (Inr r) \<longrightarrow> 2 \<le> length r) \<and>
   (0 \<le> epsilon \<longrightarrow> list_all es_punto puntos \<longrightarrow>
      (\<exists>r. douglas_peucker puntos epsilon = Some (Inr r) \<and> 2 \<le> length r))"
proof -
  assume len: "2 \<le> length puntos"
  have parcial: "2 \<le> length r" if r: "douglas_peucker puntos epsilon = Some (Inr r)" for r
    using douglas_peucker_extremos_aux[OF r] len by simp
  show ?thesis
  proof (rule conjI; intro allI impI)
    fix r assume "douglas_peucker puntos epsilon = Some (Inr r)"
    then show "2 \<le> length r" by (rule parcial)
  next
    assume "0 \<le> epsilon" and "list_all es_punto puntos"
    then have "0 \<le> epsilon" and "\<forall>p \<in> set puntos. es_punto p"
      by (simp_all add: list_all_iff)
    then obtain r where r: "douglas_peucker puntos epsilon = Some (Inr r)"
      using douglas_peucker_retorna by blast
    with parcial[OF r] show "\<exists>r. douglas_peucker puntos epsilon = Some (Inr r) \<and> 2 \<le> length r"
      by simp
  qed
qed

theorem douglas_peucker_al_menos_dos_witness:
  "2 \<le> length [Arr [Num 0, Num 0], Arr [Num 1, Num 0], Arr [Num 2, Num 0]] \<and> (0::real) \<le> 0 \<and>
   list_all es_punto [Arr [Num 0, Num 0], Arr [Num 1, Num 0], Arr [Num 2, Num 0]] \<and>
   douglas_peucker [Arr [Num 0, Num 0], Arr [Num 1, Num 0], Arr [Num 2, Num 0]] 0
     = Some (Inr [Arr [Num 0, Num 0], Arr [Num 2, Num 0]]) \<and>
   2 \<le> length [Arr [Num 0, Num 0], Arr [Num 2, Num 0]]"
  using douglas_peucker_al_menos_dos
    [of "[Arr [Num 0, Num 0], Arr [Num 1, Num 0], Arr [Num 2, Num 0]]" 0]
    ejemplo_colineal
  by simp

text \<open>
  Claim C9 as stated includes negative tolerances. With three coincident points and
  the tolerance \<open>- 1\<close> the scan ends with \<open>distancia_max = 0\<close> and
  \<open>indice_max = 0\<close>, the test \<open>0 > - 1\<close> succeeds, and the right half
  \<^verbatim>\<open>puntos[0:]\<close> is the whole list again: the call does not return.
\<close>

theorem douglas_peucker_tolerancia_negativa_counterexample:
  "2 \<le> length [Arr [Num 0, Num 0], Arr [Num 0, Num 0], Arr [Num 0, Num 0]] \<and>
   douglas_peucker [Arr [Num 0, Num 0], Arr [Num 0, Num 0], Arr [Num 0, Num 0]] (- 1) = None"
  using ejemplo_negativo by simp

subsection \<open>Ring normalizer\<close>

text \<open>
  Claim C1, as amended. For every ring with at least 4 points and every tolerance, the
  result of \<^verbatim>\<open>_simplificar_anillo\<close> has at least 4 points; a ring with fewer
  than 4 points is returned unchanged. The call returns when the tolerance is not
  negative and every element of the ring is a point.
\<close>

theorem simplificar_anillo_minimo:
  "(\<forall>r. simplificar_anillo anillo epsilon = Some (Inr r) \<longrightarrow>
        (4 \<le> length anillo \<longrightarrow> 4 \<le> length r) \<and> (length anillo < 4 \<longrightarrow> r = anillo)) \<and>
   (0 \<le> epsilon \<longrightarrow> list_all es_punto anillo \<longrightarrow>
      (\<exists>r. simplificar_anillo anillo epsilon = Some (Inr r) \<and>
           (4 \<le> length anillo \<longrightarrow> 4 \<le> length r) \<and> (length anillo < 4 \<longrightarrow> r = anillo)))"
proof -
  have parcial: "(4 \<le> length anillo \<longrightarrow> 4 \<le> length r) \<and> (length anillo < 4 \<longrightarrow> r = anillo)"
    if r: "simplificar_anillo anillo epsilon = Some (Inr r)" for r
  proof -
    from r obtain s where s: "douglas_peucker anillo epsilon = Some (Inr s)"
      and rs: "r = (if length s < 4 then anillo else s)"
      by (rule simplificar_anillo_casos)
    from douglas_peucker_subseq_aux[OF s] have "subseq s anillo" by simp
    then have "length s \<le> length anillo" by (rule list_emb_length)
    with rs show ?thesis by auto
  qed
  show ?thesis
  proof (rule conjI; intro allI impI)
    fix r assume "simplificar_anillo anillo epsilon = Some (Inr r)"
    then show "(4 \<le> length anillo \<longrightarrow> 4 \<le> length r) \<and> (length anillo < 4 \<longrightarrow> r = anillo)"
      by (rule parcial)
  next
    assume "0 \<le> epsilon" and "list_all es_punto anillo"
    then have "0 \<le> epsilon" and "\<forall>p \<in> set anillo. es_punto p"
      by (simp_all add: list_all_iff)
    then obtain s where "douglas_peucker anillo epsilon = Some (Inr s)"
      using douglas_peucker_retorna by blast
    then have r: "simplificar_anillo anillo epsilon = Some (Inr (if length s < 4 then anillo else s))"
      by (rule simplificar_anillo_Inr)
    from parcial[OF r] r
    show "\<exists>r. simplificar_anillo anillo epsilon = Some (Inr r) \<and>
           (4 \<le> length anillo \<longrightarrow> 4 \<le> length r) \<and> (length anillo < 4 \<longrightarrow> r = anillo)"
      by blast
  qed
qed

theorem simplificar_anillo_minimo_witness:
  "(0::real) \<le> 0.01 \<and>
   list_all es_punto [Arr [Num 0, Num 0], Arr [Num 0, Num 5.001], Arr [Num 0, Num 10],
                      Arr [Num 10, Num 10], Arr [Num 10, Num 0], Arr [Num 0, Num 0]] \<and>
   4 \<le> length [Arr [Num 0, Num 0], Arr [Num 0, Num 5.001], Arr [Num 0, Num 10],
                 Arr [Num 10, Num 10], Arr [Num 10, Num 0], Arr [Num 0, Num 0]] \<and>
   simplificar_anillo [Arr [Num 0, Num 0], Arr [Num 0, Num 5.001], Arr [Num 0, Num 10],
                       Arr [Num 10, Num 10], Arr [Num 10, Num 0], Arr [Num 0, Num 0]] 0.01
     = Some (Inr [Arr [Num 0, Num 0], Arr [Num 0, Num 10],
                  Arr [Num 10, Num 10], Arr [Num 10, Num 0], Arr [Num 0, Num 0]]) \<and>
   4 \<le> length [Arr [Num 0, Num 0], Arr [Num 0, Num 10],
                 Arr [Num 10, Num 10], Arr [Num 10, Num 0], Arr [Num 0, Num 0]]"
  using simplificar_anillo_minimo
    [of "[Arr [Num 0, Num 0], Arr [Num 0, Num 5.001], Arr [Num 0, Num 10],
          Arr [Num 10, Num 10], Arr [Num 10, Num 0], Arr [Num 0, Num 0]]" "0.01"]
    simplificar_anillo_Inr [OF ejemplo_casi_recto]
  by simp

text \<open>
  Claim C1 as stated covers rings that already have fewer than 4 points. Both branches
  of \<^verbatim>\<open>return anillo if len(anillo) >= 4 else anillo\<close> return the input ring,
  so a closed ring of 3 points comes back with its 3 points.
\<close>

theorem simplificar_anillo_menos_de_cuatro_counterexample:
  "simplificar_anillo [Arr [Num 0, Num 0], Arr [Num 1, Num 1], Arr [Num 0, Num 0]] 0.008
     = Some (Inr [Arr [Num 0, Num 0], Arr [Num 1, Num 1], Arr [Num 0, Num 0]]) \<and>
   length [Arr [Num 0, Num 0], Arr [Num 1, Num 1], Arr [Num 0, Num 0]] < 4"
  using simplificar_anillo_Inr [OF ejemplo_anillo_corto] by simp

text \<open>
  Claim C2. For every ring and every tolerance, if the simplification of the ring
  yields fewer than 4 points, \<^verbatim>\<open>_simplificar_anillo\<close> returns the input ring
  unmodified; in particular, for the triangle \<open>[(0,0),(5,10),(10,0),(0,0)]\<close> and any
  tolerance at which the simplification yields 3 points, the 4-point ring is returned
  unchanged. (The tolerance \<open>10\<close> is such a tolerance: see the witness.)
\<close>

theorem simplificar_anillo_conserva_original:
  "(\<forall>s. douglas_peucker anillo epsilon = Some (Inr s) \<longrightarrow> length s < 4 \<longrightarrow>
        simplificar_anillo anillo epsilon = Some (Inr anillo)) \<and>
   (\<forall>s. douglas_peucker
           [Arr [Num 0, Num 0], Arr [Num 5, Num 10], Arr [Num 10, Num 0], Arr [Num 0, Num 0]] t
         = Some (Inr s) \<longrightarrow> length s = 3 \<longrightarrow>
        simplificar_anillo
           [Arr [Num 0, Num 0], Arr [Num 5, Num 10], Arr [Num 10, Num 0], Arr [Num 0, Num 0]] t
         = Some (Inr [Arr [Num 0, Num 0], Arr [Num 5, Num 10], Arr [Num 10, Num 0],
                      Arr [Num 0, Num 0]]))"
  by (simp add: simplificar_anillo_def)

theorem simplificar_anillo_conserva_original_witness:
  "douglas_peucker
     [Arr [Num 0, Num 0], Arr [Num 5, Num 10], Arr [Num 10, Num 0], Arr [Num 0, Num 0]] 10
     = Some (Inr [Arr [Num 0, Num 0], Arr [Num 5, Num 10], Arr [Num 0, Num 0]]) \<and>
   length [Arr [Num 0, Num 0], Arr [Num 5, Num 10], Arr [Num 0, Num 0]] = 3 \<and>
   simplificar_anillo
     [Arr [Num 0, Num 0], Arr [Num 5, Num 10], Arr [Num 10, Num 0], Arr [Num 0, Num 0]] 10
     = Some (Inr [Arr [Num 0, Num 0], Arr [Num 5, Num 10], Arr [Num 10, Num 0],
                  Arr [Num 0, Num 0]])"
  using simplificar_anillo_conserva_original
    [of "[Arr [Num 0, Num 0], Arr [Num 5, Num 10], Arr [Num 10, Num 0], Arr [Num 0, Num 0]]"
        10 10]
    ejemplo_triangulo_10
  by simp

subsection \<open>Distance evaluator\<close>

text \<open>
  Claim C7. For every point \<open>p\<close> and coincident segment endpoints \<open>a == b\<close>,
  \<^verbatim>\<open>_punto_distancia_a_linea\<close> returns the Euclidean distance from \<open>p\<close> to
  \<open>a\<close>, and the division by the squared segment length is not reached: whatever
  \<open>p\<close> and \<open>a\<close> are, the call does not raise ZeroDivisionError.
\<close>

theorem punto_distancia_segmento_degenerado:
  "punto_distancia_a_linea (Arr (Num px # Num py # pr)) (Arr (Num ax # Num ay # ar))
       (Arr (Num ax # Num ay # ar))
     = Inr (sqrt ((px - ax)\<^sup>2 + (py - ay)\<^sup>2)) \<and>
   punto_distancia_a_linea p a a \<noteq> Inl ZeroDivisionError"
proof
  show "punto_distancia_a_linea (Arr (Num px # Num py # pr)) (Arr (Num ax # Num ay # ar))
       (Arr (Num ax # Num ay # ar)) = Inr (sqrt ((px - ax)\<^sup>2 + (py - ay)\<^sup>2))"
    by (simp add: punto_distancia_puntos)
next
  show "punto_distancia_a_linea p a a \<noteq> Inl ZeroDivisionError"
  proof (cases "coinciden a a")
    case (Inl e)
    then have "e \<noteq> ZeroDivisionError" by (rule coinciden_error)
    with Inl show ?thesis by (simp add: punto_distancia_a_linea_def bind_r_def)
  next
    case (Inr c)
    with coinciden_mismo[OF Inr] distancia_a_punto_sin_division[of p a]
    show ?thesis by (simp add: punto_distancia_a_linea_def bind_r_def)
  qed
qed

theorem punto_distancia_segmento_degenerado_witness:
  "punto_distancia_a_linea (Arr [Num 3, Num 4]) (Arr [Num 0, Num 0]) (Arr [Num 0, Num 0]) = Inr 5"
  using punto_distancia_segmento_degenerado [of 3 4 "[]" 0 0 "[]"]
  by simp

subsection \<open>Coordinate quantizer\<close>

text \<open>
  Claim C8. For every nested coordinate structure and every non-negative integer
  precision, applying \<^verbatim>\<open>_redondear_coordenadas\<close> twice with the same precision
  yields the same result as applying it once (the same exception, when the first
  application raises): rounding an already rounded coordinate set is a no-op.
\<close>

theorem redondear_coordenadas_idempotente:
  "0 \<le> precision \<Longrightarrow>
   bind_r (redondear_coordenadas coords precision) (\<lambda>r. redondear_coordenadas r precision)
     = redondear_coordenadas coords precision \<and>
   (\<forall>r. redondear_coordenadas coords precision = Inr r \<longrightarrow>
        redondear_coordenadas r precision = Inr r)"
  by (cases "redondear_coordenadas coords precision")
     (auto simp: bind_r_def redondear_resultado_fijo)

theorem redondear_coordenadas_idempotente_witness:
  "(0::int) \<le> 3 \<and>
   redondear_coordenadas
     (Arr [Arr [Arr [Num (- 74.072092), Num 4.710989, Num 2640], Arr [Num 1.23456, Num 2.5]]]) 3
   = Inr (Arr [Arr [Arr [Num (- 74.072), Num 4.711], Arr [Num 1.235, Num 2.5]]]) \<and>
   redondear_coordenadas
     (Arr [Arr [Arr [Num (- 74.072), Num 4.711], Arr [Num 1.235, Num 2.5]]]) 3
   = Inr (Arr [Arr [Arr [Num (- 74.072), Num 4.711], Arr [Num 1.235, Num 2.5]]])"
  using redondear_coordenadas_idempotente
    [of 3 "Arr [Arr [Arr [Num (- 74.072092), Num 4.710989, Num 2640], Arr [Num 1.23456, Num 2.5]]]"]
    ejemplo_redondear
  by simp

text \<open>
  Claim C10. \<^verbatim>\<open>_redondear_coordenadas\<close> keeps the nesting above the leaves
  element for element (a list of lists returns a list of the same length whose
  elements are the results of its elements, and returns exactly when all of them do),
  and turns a leaf into the two-element list \<open>[round(x, p), round(y, p)]\<close>: whatever
  follows the first two components of a leaf, an altitude for example, is dropped.
\<close>

theorem redondear_coordenadas_estructura:
  "redondear_coordenadas (Arr (Num x # Num y # resto)) precision
     = Inr (Arr [Num (py_round x precision), Num (py_round y precision)]) \<and>
   (redondear_coordenadas (Arr (Arr c # cs)) precision = Inr r \<longleftrightarrow>
      (\<exists>rs. r = Arr rs \<and>
         list_all2 (\<lambda>c r. redondear_coordenadas c precision = Inr r) (Arr c # cs) rs))"
  using redondear_lista_iff[of c cs precision r] by simp

theorem redondear_coordenadas_estructura_witness:
  "redondear_coordenadas (Arr [Num (- 74.072092), Num 4.710989, Num 2640]) 3
     = Inr (Arr [Num (- 74.072), Num 4.711]) \<and>
   redondear_coordenadas
     (Arr [Arr [Num (- 74.072092), Num 4.710989, Num 2640], Arr [Num 1.23456, Num 2.5]]) 3
     = Inr (Arr [Arr [Num (- 74.072), Num 4.711], Arr [Num 1.235, Num 2.5]])"
  using redondear_coordenadas_estructura
    [of "- 74.072092" "4.710989" "[Num 2640]" 3 "[Num (- 74.072092), Num 4.710989, Num 2640]"
        "[Arr [Num 1.23456, Num 2.5]]"
        "Arr [Arr [Num (- 74.072), Num 4.711], Arr [Num 1.235, Num 2.5]]"]
  by (simp add: py_round_def round_half_even_def Let_def)

subsection \<open>Geometry transformer\<close>

text \<open>
  Claim C6, as amended. For every geometry whose type tag is neither \<open>'Polygon'\<close> nor
  \<open>'MultiPolygon'\<close>, \<^verbatim>\<open>_simplificar_geometria\<close> raises nothing on account of
  the tag: it returns the geometry unchanged when the geometry has a
  \<open>'coordinates'\<close> member, and raises KeyError when it has none.
\<close>

theorem simplificar_geometria_otro_tipo:
  "geom_type geom = Some tipo \<Longrightarrow> tipo \<noteq> ''Polygon'' \<Longrightarrow> tipo \<noteq> ''MultiPolygon'' \<Longrightarrow>
   simplificar_geometria geom epsilon =
     (case geom_coordinates geom of
        None \<Rightarrow> Some (Inl KeyError)
      | Some coords \<Rightarrow> Some (Inr geom))"
  by (simp add: simplificar_geometria_def split: option.splits)

theorem simplificar_geometria_otro_tipo_witness:
  "simplificar_geometria
     \<lparr>geom_type = Some ''LineString'',
      geom_coordinates = Some (Arr [Arr [Num 0, Num 0], Arr [Num 1, Num 0], Arr [Num 2, Num 0]])\<rparr>
     0.008
   = Some (Inr \<lparr>geom_type = Some ''LineString'',
      geom_coordinates = Some (Arr [Arr [Num 0, Num 0], Arr [Num 1, Num 0], Arr [Num 2, Num 0]])\<rparr>)"
  using simplificar_geometria_otro_tipo
    [of "\<lparr>geom_type = Some ''LineString'',
      geom_coordinates = Some (Arr [Arr [Num 0, Num 0], Arr [Num 1, Num 0], Arr [Num 2, Num 0]])\<rparr>"
      "''LineString''" "0.008"]
  by simp

text \<open>
  Claim C6 as stated asks for an error on an unrecognized tag. The
  \<^verbatim>\<open>if\<close>/\<^verbatim>\<open>elif\<close> of the source has no \<^verbatim>\<open>else\<close>: a \<open>'Point'\<close>
  geometry falls through to \<^verbatim>\<open>return geom\<close>.
\<close>

theorem simplificar_geometria_tipo_desconocido_counterexample:
  "simplificar_geometria
     \<lparr>geom_type = Some ''Point'', geom_coordinates = Some (Arr [Num (- 74.072092), Num 4.710989])\<rparr>
     0.008
   = Some (Inr \<lparr>geom_type = Some ''Point'',
                geom_coordinates = Some (Arr [Num (- 74.072092), Num 4.710989])\<rparr>)"
  by (simp add: simplificar_geometria_def)

end
